theory Spec2Isabelle
  imports Main
begin

section \<open>Data model (routes/lobby.js, models/User.js)\<close>

text \<open>
  A JavaScript number is an IEEE double. The numbers of this program are whole: they are
  modelled as \<open>int\<close>, and every \<open>+=\<close>, \<open>-=\<close>, \<open>++\<close> and \<open>--\<close> on a stored number
  rounds its exact result to the nearest double (\<open>toDouble\<close> below). List indices and
  the cycle counter are \<open>nat\<close>: they start at 0, grow by one per request and stay far
  below \<open>2 ^ 53\<close>. Strings are ASCII \<open>string\<close>, a date is its millisecond timestamp, a
  nullable date an \<open>option\<close>. The Mongo collections are explicit state: users by id,
  lobbies as the list of stored documents.
\<close>

datatype playerType = Human | Bot

record card =
  cardId :: string
  cardName :: string

record playerInLobby =
  pid :: string
  pname :: string
  isReady :: bool
  ptype :: playerType
  pelo :: int
  pcasualPoints :: int
  lives :: int
  currentRoundScore :: int
  roundCorrectAnswers :: int
  roundTotalAnswers :: int
  cards :: "card list"
  shields :: int
  goldenDefenseUsed :: bool

record chatMessage =
  senderId :: string
  senderName :: string
  message :: string
  timestamp :: int

record question =
  qtext :: string
  qanswer :: string
  qhint :: "string option"

record lobby =
  lobbyId :: string
  lname :: string
  ltype :: string
  hostId :: string
  players :: "playerInLobby list"
  maxPlayers :: int
  gameStarted :: bool
  chatMessages :: "chatMessage list"
  isRanked :: bool
  isCustom :: bool
  isFrenzyMode :: bool
  initialLives :: int
  questionTimer :: int
  playerCycles :: nat
  currentQuestionIndex :: nat
  currentPlayerIndex :: nat
  questions :: "question list"

record user =
  username :: string
  elo :: int
  casualPoints :: int
  rankedCorrectAnswers :: int
  rankedTotalAnswers :: int
  casualCorrectAnswers :: int
  casualTotalAnswers :: int
  soloStage :: int
  soloStageAccuracy :: "(string \<times> int) list"
  tokens :: int
  inventory :: "string list"
  equippedTitle :: string
  warningCount :: int
  penaltyEndTime :: "int option"

record server =
  users :: "string \<rightharpoonup> user"
  lobbies :: "lobby list"

text \<open>Every response that is not a success, named after the message the handler sends.\<close>

datatype error =
    UserNotFound
  | Penalized
  | LobbyNotFound
  | LobbyFullOrStarted
  | UserNotInLobby
  | NotHost
  | NeedTwoPlayers
  | NotAllReady
  | GameNotActive
  | NotYourTurn
  | AlreadyOwned
  | InsufficientTokens
  | ServerError

fun status :: "error \<Rightarrow> nat" where
  "status UserNotFound = 404"
| "status Penalized = 403"
| "status LobbyNotFound = 404"
| "status LobbyFullOrStarted = 400"
| "status UserNotInLobby = 400"
| "status NotHost = 403"
| "status NeedTwoPlayers = 400"
| "status NotAllReady = 400"
| "status GameNotActive = 400"
| "status NotYourTurn = 403"
| "status AlreadyOwned = 400"
| "status InsufficientTokens = 400"
| "status ServerError = 500"

section \<open>Module bindings\<close>

text \<open>
  \<open>server.js\<close> requires \<open>./routes/lobby\<close> before it assigns \<open>module.exports.io\<close>, so
  \<open>const { io } = require('../server')\<close> in \<open>routes/lobby.js\<close> destructures the still
  empty exports object: \<open>io\<close> is \<open>undefined\<close> in the route handlers for the life of the
  process, and every \<open>io.emit\<close> and \<open>io.to(..).emit\<close> there throws a TypeError, which the
  handler's \<open>catch\<close> answers with 500 ``Server error''.

  \<open>routes/lobby.js\<close> ends with \<open>module.exports = router\<close>, which replaces the object that
  carried \<open>module.exports.Lobby\<close>; \<open>const { Lobby } = require('./routes/lobby')\<close> in
  \<open>server.js\<close> therefore binds \<open>undefined\<close>, and \<open>Lobby.findOne\<close> in the inactivity timer
  throws.

  A binding is an \<open>option\<close>, \<open>None\<close> for \<open>undefined\<close>. The handlers take the binding they
  close over as their first argument; \<open>routesIo\<close> and \<open>serverLobby\<close> are the bindings of
  the program as it is loaded.
\<close>

datatype socketServer = SocketServer

datatype lobbyModel = LobbyModel

definition routesIo :: "socketServer option" where
  "routesIo = None"

definition serverLobby :: "lobbyModel option" where
  "serverLobby = None"

text \<open>
  A route handler that has written its changes, emits and then replies: with \<open>io\<close>
  undefined the emit throws after the write, and the reply is 500.
\<close>

definition emitAndReply :: "socketServer option \<Rightarrow> 'a \<Rightarrow> server \<Rightarrow> (error + 'a) \<times> server" where
  "emitAndReply io reply st = (case io of None \<Rightarrow> (Inl ServerError, st) | Some s \<Rightarrow> (Inr reply, st))"

section \<open>Arithmetic on doubles\<close>

text \<open>
  Sums and differences of whole doubles are computed exactly and rounded to the nearest
  double, ties to the even significand. Whole numbers up to \<open>2 ^ 53\<close> in magnitude are
  doubles; above, a double keeps the leading 53 binary digits. (The model stays below
  \<open>2 ^ 1024\<close>, where a double is finite.)
\<close>

function bitLength :: "int \<Rightarrow> nat" where
  "bitLength n = (if n \<le> 0 then 0 else Suc (bitLength (n div 2)))"
  by pat_completeness auto
termination
  by (relation "measure nat") auto

declare bitLength.simps [simp del]

definition toDouble :: "int \<Rightarrow> int" where
  "toDouble x =
     (if \<bar>x\<bar> \<le> 9007199254740992 then x
      else
        let m = \<bar>x\<bar>;
            sh = bitLength m - 53;
            q = m div 2 ^ sh;
            r = m mod 2 ^ sh;
            q' = (if 2 ^ sh < 2 * r \<or> (2 * r = 2 ^ sh \<and> odd q) then q + 1 else q)
        in sgn x * (q' * 2 ^ sh))"

text \<open>
  The numbers the model covers: whole doubles of a magnitude at which sums and differences
  of two of them are still finite.
\<close>

definition wholeDouble :: "int \<Rightarrow> bool" where
  "wholeDouble x = (toDouble x = x \<and> \<bar>x\<bar> \<le> 2 ^ 1000)"

definition jsAdd :: "int \<Rightarrow> int \<Rightarrow> int" where
  "jsAdd a b = toDouble (a + b)"

definition jsSub :: "int \<Rightarrow> int \<Rightarrow> int" where
  "jsSub a b = toDouble (a - b)"

section \<open>The lobby collection\<close>

definition findLobby :: "string \<Rightarrow> lobby list \<Rightarrow> lobby option" where
  "findLobby lid ls = find (\<lambda>l. lobbyId l = lid) ls"

text \<open>\<open>lobby.save()\<close> on a loaded document replaces the stored copy.\<close>

definition saveLobby :: "lobby \<Rightarrow> lobby list \<Rightarrow> lobby list" where
  "saveLobby l ls = map (\<lambda>x. if lobbyId x = lobbyId l then l else x) ls"

fun deleteOne :: "string \<Rightarrow> lobby list \<Rightarrow> lobby list" where
  "deleteOne lid [] = []"
| "deleteOne lid (l # ls) = (if lobbyId l = lid then ls else l # deleteOne lid ls)"

definition humans :: "playerInLobby list \<Rightarrow> playerInLobby list" where
  "humans ps = filter (\<lambda>p. ptype p = Human) ps"

definition penalized :: "int \<Rightarrow> user \<Rightarrow> bool" where
  "penalized now u = (case penaltyEndTime u of None \<Rightarrow> False | Some t \<Rightarrow> now < t)"

section \<open>POST /:lobbyId/leave\<close>

datatype leaveReply = LobbyDeletedMsg | LeftLobby lobby

definition leaveLobby ::
  "socketServer option \<Rightarrow> string \<Rightarrow> string \<Rightarrow> server \<Rightarrow> (error + leaveReply) \<times> server" where
  "leaveLobby io lid userId st =
     (case findLobby lid (lobbies st) of
        None \<Rightarrow> (Inl LobbyNotFound, st)
      | Some lobby0 \<Rightarrow>
          let initialPlayerCount = length (players lobby0);
              lobby1 = lobby0\<lparr>players := filter (\<lambda>p. pid p \<noteq> userId) (players lobby0)\<rparr>
          in if length (players lobby1) = initialPlayerCount then (Inl UserNotInLobby, st)
             else if length (humans (players lobby1)) = 0
               then emitAndReply io LobbyDeletedMsg (st\<lparr>lobbies := deleteOne lid (lobbies st)\<rparr>)
             else if hostId lobby1 = userId then
               (case find (\<lambda>p. ptype p = Human) (players lobby1) of
                  Some newHost \<Rightarrow>
                    let lobby2 = lobby1\<lparr>hostId := pid newHost\<rparr>
                    in emitAndReply io (LeftLobby lobby2)
                         (st\<lparr>lobbies := saveLobby lobby2 (lobbies st)\<rparr>)
                | None \<Rightarrow>
                    emitAndReply io LobbyDeletedMsg (st\<lparr>lobbies := deleteOne lid (lobbies st)\<rparr>))
             else emitAndReply io (LeftLobby lobby1)
                    (st\<lparr>lobbies := saveLobby lobby1 (lobbies st)\<rparr>))"

section \<open>POST /users/buy-item\<close>

record purchase =
  newTokens :: int
  newInventory :: "string list"
  newEquippedTitle :: string

definition buyItem ::
  "string \<Rightarrow> string \<Rightarrow> int \<Rightarrow> string \<Rightarrow> string \<Rightarrow> server \<Rightarrow> (error + purchase) \<times> server" where
  "buyItem userId itemId itemPrice itemCategory itemName st =
     (case users st userId of
        None \<Rightarrow> (Inl UserNotFound, st)
      | Some u \<Rightarrow>
          if itemId \<in> set (inventory u) then (Inl AlreadyOwned, st)
          else if tokens u < itemPrice then (Inl InsufficientTokens, st)
          else
            let u1 = u\<lparr>tokens := jsSub (tokens u) itemPrice,
                       inventory := inventory u @ [itemId]\<rparr>;
                u2 = (if itemCategory = ''title'' then u1\<lparr>equippedTitle := itemName\<rparr> else u1)
            in (Inr \<lparr>newTokens = tokens u2, newInventory = inventory u2,
                     newEquippedTitle = equippedTitle u2\<rparr>,
                st\<lparr>users := (users st)(userId \<mapsto> u2)\<rparr>))"

section \<open>String helpers of the JavaScript runtime\<close>

text \<open>
  Strings are ASCII: \<open>toLowerCase\<close> maps \<open>A\<close>..\<open>Z\<close> to \<open>a\<close>..\<open>z\<close> and leaves every other
  character alone.
\<close>

definition toLowerChar :: "char \<Rightarrow> char" where
  "toLowerChar c =
     (case map_of (zip ''ABCDEFGHIJKLMNOPQRSTUVWXYZ'' ''abcdefghijklmnopqrstuvwxyz'') c of
        Some d \<Rightarrow> d
      | None \<Rightarrow> c)"

definition toLowerCase :: "string \<Rightarrow> string" where
  "toLowerCase s = map toLowerChar s"

text \<open>The upper-case letter of a lower-case one, to speak of answers that differ in case.\<close>

definition toUpperChar :: "char \<Rightarrow> char" where
  "toUpperChar c =
     (case map_of (zip ''abcdefghijklmnopqrstuvwxyz'' ''ABCDEFGHIJKLMNOPQRSTUVWXYZ'') c of
        Some d \<Rightarrow> d
      | None \<Rightarrow> c)"

definition startsWith :: "string \<Rightarrow> string \<Rightarrow> bool" where
  "startsWith s pre = (take (length pre) s = pre)"

definition includesStr :: "string \<Rightarrow> string \<Rightarrow> bool" where
  "includesStr s sub = list_ex (\<lambda>i. take (length sub) (drop i s) = sub) [0..<Suc (length s)]"

text \<open>\<open>type.replace(/-/g, '_')\<close>\<close>

definition replaceDashes :: "string \<Rightarrow> string" where
  "replaceDashes s = map (\<lambda>c. if c = CHR ''-'' then CHR ''_'' else c) s"

fun showNat :: "nat \<Rightarrow> string" where
  "showNat n =
     (if n < 10 then [''0123456789'' ! n] else showNat (n div 10) @ [''0123456789'' ! (n mod 10)])"

section \<open>Static data\<close>

definition originalQuestions :: "question list" where
  "originalQuestions =
     [\<lparr>qtext = ''What is the output of: cout << 2 + 2;'', qanswer = ''4'', qhint = None\<rparr>,
      \<lparr>qtext = ''Which keyword is used for constant?'', qanswer = ''const'', qhint = None\<rparr>,
      \<lparr>qtext = ''How many bytes is an int?'', qanswer = ''4'', qhint = None\<rparr>,
      \<lparr>qtext = ''C++ pointer access operator?'', qanswer = ''->'', qhint = None\<rparr>,
      \<lparr>qtext = ''Declare a pointer to int'', qanswer = ''int* ptr;'', qhint = None\<rparr>]"

definition fillInBlanksQuestions :: "question list" where
  "fillInBlanksQuestions =
     [\<lparr>qtext = ''int main() { cout << \"Hello, ___\"; return 0; }'', qanswer = ''world'',
       qhint = Some ''Common greeting''\<rparr>,
      \<lparr>qtext = ''int ___ = 10;'', qanswer = ''x'', qhint = Some ''A common variable name''\<rparr>,
      \<lparr>qtext = ''for (int i = 0; i < ___; i++)'', qanswer = ''10'',
       qhint = Some ''A typical loop limit''\<rparr>,
      \<lparr>qtext = ''class MyClass { public: MyClass() { /* constructor */ } };'',
       qanswer = ''MyClass'', qhint = Some ''Name of the class''\<rparr>,
      \<lparr>qtext = ''std::string ___ = \"C++\";'', qanswer = ''language'',
       qhint = Some ''What is C++?''\<rparr>]"

text \<open>The catalog entries, without their description and icon (never copied into a hand).\<close>

definition abilityCards :: "card list" where
  "abilityCards =
     [\<lparr>cardId = ''card_copy'', cardName = ''Copy''\<rparr>,
      \<lparr>cardId = ''card_control'', cardName = ''Control''\<rparr>,
      \<lparr>cardId = ''card_golden_defense'', cardName = ''Golden Defense''\<rparr>,
      \<lparr>cardId = ''card_meta_vision'', cardName = ''Meta Vision''\<rparr>,
      \<lparr>cardId = ''card_evolved_meta_vision'', cardName = ''Evolved Meta Vision''\<rparr>]"

definition lobbyTypes :: "string list" where
  "lobbyTypes =
     [''free-for-all-qna'', ''1v1-fill-in-blanks'', ''solo-coding-challenge'',
      ''ranked-free-for-all-qna'', ''ranked-1v1-fill-in-blanks'',
      ''custom-qna'', ''custom-fill-in-blanks'']"

text \<open>
  Randomness is a parameter: \<open>rng k\<close> is the value of the \<open>k\<close>-th
  \<open>Math.floor(Math.random() * abilityCards.length)\<close> of a request, brought into range.
\<close>

definition randomCard :: "nat \<Rightarrow> card" where
  "randomCard r = abilityCards ! (r mod length abilityCards)"

definition getStartingCards :: "bool \<Rightarrow> (nat \<Rightarrow> nat) \<Rightarrow> nat \<Rightarrow> card list" where
  "getStartingCards frenzy rng k =
     (if \<not> frenzy then [] else map (\<lambda>i. randomCard (rng (k + i))) [0..<3])"

section \<open>POST /api/lobbies\<close>

definition generateLobbyId :: "string \<Rightarrow> string \<Rightarrow> string" where
  "generateLobbyId pre suffix = pre @ ''-'' @ suffix"

record lobbyConfig =
  cfgName :: string
  cfgMaxPlayers :: int
  cfgType :: string
  cfgFrenzy :: bool
  cfgInitialLives :: int
  cfgQuestionTimer :: int

text \<open>
  \<open>newLobby.save()\<close> runs the schema's validators: a required string that is empty, a
  \<open>type\<close> outside the enum and a \<open>lobbyId\<close> already stored (unique index) all throw,
  and the handler's \<open>catch\<close> answers 500 with nothing stored. After a save that went
  through the handler emits \<open>lobbyCreated\<close> and only then replies. The other handlers save
  documents that were loaded from the collection and change no validated field.
\<close>

definition validLobby :: "lobby \<Rightarrow> bool" where
  "validLobby l =
     (lobbyId l \<noteq> [] \<and> lname l \<noteq> [] \<and> ltype l \<in> set lobbyTypes \<and> hostId l \<noteq> []
      \<and> list_all (\<lambda>p. pid p \<noteq> [] \<and> pname p \<noteq> []) (players l))"

definition createLobby ::
  "socketServer option \<Rightarrow> string \<Rightarrow> string \<Rightarrow> lobbyConfig \<Rightarrow> int \<Rightarrow> string \<Rightarrow> (nat \<Rightarrow> nat)
     \<Rightarrow> server \<Rightarrow> (error + lobby) \<times> server" where
  "createLobby io hostId' hostUsername cfg now suffix rng st =
     (case users st hostId' of
        None \<Rightarrow> (Inl UserNotFound, st)
      | Some u \<Rightarrow>
          if penalized now u then (Inl Penalized, st)
          else
            let newLobbyId = generateLobbyId (replaceDashes (cfgType cfg)) suffix;
                ranked = startsWith (cfgType cfg) ''ranked-'';
                custom = startsWith (cfgType cfg) ''custom-'';
                initialPlayer =
                  \<lparr>pid = hostId', pname = hostUsername, isReady = ranked, ptype = Human,
                   pelo = elo u, pcasualPoints = casualPoints u, lives = cfgInitialLives cfg,
                   currentRoundScore = 0, roundCorrectAnswers = 0, roundTotalAnswers = 0,
                   cards = getStartingCards (cfgFrenzy cfg) rng 0, shields = 0,
                   goldenDefenseUsed = False\<rparr>;
                bots =
                  map (\<lambda>i. \<lparr>pid = ''bot_'' @ newLobbyId @ ''_'' @ showNat i,
                             pname = ''Bot_'' @ showNat i, isReady = True, ptype = Bot,
                             pelo = 0, pcasualPoints = 0, lives = cfgInitialLives cfg,
                             currentRoundScore = 0, roundCorrectAnswers = 0,
                             roundTotalAnswers = 0,
                             cards = getStartingCards (cfgFrenzy cfg) rng (3 * i), shields = 0,
                             goldenDefenseUsed = False\<rparr>)
                      [1..<nat (cfgMaxPlayers cfg)];
                newLobby =
                  \<lparr>lobbyId = newLobbyId, lname = cfgName cfg, ltype = cfgType cfg,
                   hostId = hostId', players = initialPlayer # bots,
                   maxPlayers = cfgMaxPlayers cfg, gameStarted = False, chatMessages = [],
                   isRanked = ranked, isCustom = custom, isFrenzyMode = cfgFrenzy cfg,
                   initialLives = cfgInitialLives cfg, questionTimer = cfgQuestionTimer cfg,
                   playerCycles = 0, currentQuestionIndex = 0, currentPlayerIndex = 0,
                   questions = []\<rparr>
            in if \<not> validLobby newLobby \<or> findLobby newLobbyId (lobbies st) \<noteq> None
               then (Inl ServerError, st)
               else emitAndReply io newLobby (st\<lparr>lobbies := lobbies st @ [newLobby]\<rparr>))"

section \<open>POST /:lobbyId/join\<close>

definition joinLobby ::
  "socketServer option \<Rightarrow> string \<Rightarrow> string \<Rightarrow> string \<Rightarrow> int \<Rightarrow> (nat \<Rightarrow> nat) \<Rightarrow> server
     \<Rightarrow> (error + lobby) \<times> server" where
  "joinLobby io lid userId uname now rng st =
     (case users st userId of
        None \<Rightarrow> (Inl UserNotFound, st)
      | Some u \<Rightarrow>
          if penalized now u then (Inl Penalized, st)
          else
            (case findLobby lid (lobbies st) of
               None \<Rightarrow> (Inl LobbyNotFound, st)
             | Some lobby0 \<Rightarrow>
                 if maxPlayers lobby0 \<le> int (length (players lobby0)) \<or> gameStarted lobby0
                 then (Inl LobbyFullOrStarted, st)
                 else if list_ex (\<lambda>p. pid p = userId) (players lobby0) then (Inr lobby0, st)
                 else
                   let playerToAdd =
                         \<lparr>pid = userId, pname = uname, isReady = isRanked lobby0, ptype = Human,
                          pelo = elo u, pcasualPoints = casualPoints u,
                          lives = initialLives lobby0, currentRoundScore = 0,
                          roundCorrectAnswers = 0, roundTotalAnswers = 0,
                          cards = getStartingCards (isFrenzyMode lobby0) rng 0, shields = 0,
                          goldenDefenseUsed = False\<rparr>;
                       lobby1 = lobby0\<lparr>players := players lobby0 @ [playerToAdd]\<rparr>
                   in emitAndReply io lobby1 (st\<lparr>lobbies := saveLobby lobby1 (lobbies st)\<rparr>)))"

section \<open>POST /:lobbyId/start\<close>

text \<open>
  \<open>[...bank].sort(() => Math.random() - 0.5)\<close> is the parameter \<open>shuffle\<close>; player number
  \<open>j\<close> of the roster is dealt from the draws \<open>3 * j\<close>, \<open>3 * j + 1\<close>, \<open>3 * j + 2\<close>.
\<close>

definition resetPlayer :: "lobby \<Rightarrow> (nat \<Rightarrow> nat) \<Rightarrow> nat \<Rightarrow> playerInLobby \<Rightarrow> playerInLobby" where
  "resetPlayer lobby0 rng j p =
     p\<lparr>lives := initialLives lobby0, currentRoundScore := 0, roundCorrectAnswers := 0,
       roundTotalAnswers := 0, cards := getStartingCards (isFrenzyMode lobby0) rng (3 * j),
       shields := 0, goldenDefenseUsed := False\<rparr>"

definition startGame ::
  "socketServer option \<Rightarrow> string \<Rightarrow> string \<Rightarrow> (question list \<Rightarrow> question list) \<Rightarrow> (nat \<Rightarrow> nat)
     \<Rightarrow> server \<Rightarrow> (error + lobby) \<times> server" where
  "startGame io lid userId shuffle rng st =
     (case findLobby lid (lobbies st) of
        None \<Rightarrow> (Inl LobbyNotFound, st)
      | Some lobby0 \<Rightarrow>
          if hostId lobby0 \<noteq> userId then (Inl NotHost, st)
          else if length (players lobby0) < 2 then (Inl NeedTwoPlayers, st)
          else if \<not> list_all isReady (players lobby0) then (Inl NotAllReady, st)
          else
            let lobby1 = lobby0\<lparr>gameStarted := True, currentQuestionIndex := 0,
                                currentPlayerIndex := 0, playerCycles := 0\<rparr>;
                lobby2 =
                  (if includesStr (ltype lobby1) ''qna''
                     then lobby1\<lparr>questions := shuffle originalQuestions\<rparr>
                   else if includesStr (ltype lobby1) ''fill-in-blanks''
                     then lobby1\<lparr>questions := shuffle fillInBlanksQuestions\<rparr>
                   else lobby1\<lparr>questions := shuffle originalQuestions\<rparr>);
                lobby3 =
                  lobby2\<lparr>players :=
                    map (\<lambda>(j, p). resetPlayer lobby2 rng j p)
                      (zip [0..<length (players lobby2)] (players lobby2))\<rparr>
            in emitAndReply io lobby3 (st\<lparr>lobbies := saveLobby lobby3 (lobbies st)\<rparr>))"

section \<open>POST /:lobbyId/answer\<close>

definition isCorrect :: "string \<Rightarrow> question \<Rightarrow> bool" where
  "isCorrect userAnswer currentQuestion =
     (toLowerCase userAnswer = toLowerCase (qanswer currentQuestion))"

text \<open>
  Golden Defense and the life/score update of the player in turn, on the loaded document.
  Each of the three branches (shield, correct, incorrect) emits a chat message through
  \<open>io\<close> right after its update, before anything is saved.
\<close>

definition applyAnswer :: "bool \<Rightarrow> playerInLobby \<Rightarrow> playerInLobby" where
  "applyAnswer correct p =
     (let absorbed = (\<not> correct \<and> 0 < shields p);
          p1 = (if absorbed then p\<lparr>shields := jsSub (shields p) 1\<rparr> else p);
          actualIsCorrect = (correct \<or> absorbed);
          p2 = p1\<lparr>roundTotalAnswers := jsAdd (roundTotalAnswers p1) 1\<rparr>
      in if actualIsCorrect
         then p2\<lparr>roundCorrectAnswers := jsAdd (roundCorrectAnswers p2) 1,
                 currentRoundScore := jsAdd (currentRoundScore p2) 100\<rparr>
         else p2\<lparr>lives := jsSub (lives p2) 1,
                 currentRoundScore := jsSub (currentRoundScore p2) 50\<rparr>)"

text \<open>The global statistics of the user, keyed by the original correctness.\<close>

definition updateStats :: "bool \<Rightarrow> bool \<Rightarrow> user \<Rightarrow> user" where
  "updateStats ranked correct u =
     (if ranked then
        let u1 = u\<lparr>rankedTotalAnswers := jsAdd (rankedTotalAnswers u) 1\<rparr>;
            u2 = (if correct
                  then u1\<lparr>rankedCorrectAnswers := jsAdd (rankedCorrectAnswers u1) 1,
                          elo := jsAdd (elo u1) 15\<rparr>
                  else u1\<lparr>elo := jsSub (elo u1) 10\<rparr>)
        in if elo u2 < 0 then u2\<lparr>elo := 0\<rparr> else u2
      else
        let u1 = u\<lparr>casualTotalAnswers := jsAdd (casualTotalAnswers u) 1\<rparr>;
            u2 = (if correct
                  then u1\<lparr>casualCorrectAnswers := jsAdd (casualCorrectAnswers u1) 1,
                          casualPoints := jsAdd (casualPoints u1) 10\<rparr>
                  else u1\<lparr>casualPoints := jsSub (casualPoints u1) 5\<rparr>)
        in if casualPoints u2 < 0 then u2\<lparr>casualPoints := 0\<rparr> else u2)"

text \<open>
  \<open>currentPlayerInTurn\<close> is the first roster entry with the submitter's id; the handler
  mutates that entry in place.
\<close>

fun updateFirst :: "('a \<Rightarrow> bool) \<Rightarrow> 'a \<Rightarrow> 'a list \<Rightarrow> 'a list" where
  "updateFirst P y [] = []"
| "updateFirst P y (x # xs) = (if P x then y # xs else x # updateFirst P y xs)"

definition tokensEarned :: "lobby \<Rightarrow> int" where
  "tokensEarned l = 100 + (if isRanked l then 150 else if isCustom l then 100 else 0)"

definition awardWinner :: "lobby \<Rightarrow> (string \<rightharpoonup> user) \<Rightarrow> (string \<rightharpoonup> user)" where
  "awardWinner l us =
     (case find (\<lambda>p. ptype p = Human) (players l) of
        None \<Rightarrow> us
      | Some winner \<Rightarrow>
          (case us (pid winner) of
             None \<Rightarrow> us
           | Some winningUser \<Rightarrow>
               us(pid winner \<mapsto>
                    winningUser\<lparr>tokens := jsAdd (tokens winningUser) (tokensEarned l)\<rparr>)))"

text \<open>
  The loop that skips eliminated players has no bound in the source; a run that never
  leaves it is the value \<open>None\<close>: the request gets no reply and the lobby is not saved.
\<close>

partial_function (option) skipEliminated :: "playerInLobby list \<Rightarrow> nat \<Rightarrow> nat option" where
  "skipEliminated ps i =
     (if i < length ps \<and> lives (ps ! i) \<le> 0
      then skipEliminated ps ((i + 1) mod length ps)
      else Some i)"

declare skipEliminated.simps [code]

definition dealCycleCard :: "playerInLobby \<Rightarrow> nat \<Rightarrow> lobby \<Rightarrow> lobby" where
  "dealCycleCard cur r l =
     (if ptype cur = Human \<or> (ptype cur = Bot \<and> \<not> startsWith (ltype l) ''solo-'') then
        let l1 = l\<lparr>playerCycles := playerCycles l + 1\<rparr>
        in if isFrenzyMode l1 \<and> playerCycles l1 mod (length (players l1) * 2) = 0
           then l1\<lparr>players := map (\<lambda>p. p\<lparr>cards := cards p @ [randomCard r]\<rparr>) (players l1)\<rparr>
           else l1
      else l)"

definition nextQuestion :: "lobby \<Rightarrow> lobby" where
  "nextQuestion l =
     (let l1 = l\<lparr>currentQuestionIndex := currentQuestionIndex l + 1\<rparr>
      in if length (questions l1) \<le> currentQuestionIndex l1
         then l1\<lparr>currentQuestionIndex := 0\<rparr> else l1)"

text \<open>
  The roster once the answer is applied: the entry of the player in turn is replaced, and
  removed again (with every entry of the same id) when no life is left.
\<close>

definition resolveTurn :: "string \<Rightarrow> playerInLobby \<Rightarrow> lobby \<Rightarrow> lobby" where
  "resolveTurn userId cur lobby0 =
     (let lobby1 = lobby0\<lparr>players := updateFirst (\<lambda>p. pid p = userId) cur (players lobby0)\<rparr>
      in if lives cur \<le> 0
         then lobby1\<lparr>players := filter (\<lambda>p. pid p \<noteq> pid cur) (players lobby1)\<rparr>
         else lobby1)"

definition recordStats ::
  "string \<Rightarrow> bool \<Rightarrow> bool \<Rightarrow> (string \<rightharpoonup> user) \<Rightarrow> (string \<rightharpoonup> user)" where
  "recordStats userId ranked correct us =
     (case us userId of
        None \<Rightarrow> us
      | Some u \<Rightarrow> us(userId \<mapsto> updateStats ranked correct u))"

text \<open>Next player, next question, cycle counter: only when the game goes on.\<close>

definition advanceTurn :: "playerInLobby \<Rightarrow> nat \<Rightarrow> lobby \<Rightarrow> lobby option" where
  "advanceTurn cur r lobby2 =
     (case skipEliminated (players lobby2)
             ((currentPlayerIndex lobby2 + 1) mod length (players lobby2)) of
        None \<Rightarrow> None
      | Some i \<Rightarrow> Some (dealCycleCard cur r (nextQuestion (lobby2\<lparr>currentPlayerIndex := i\<rparr>))))"

datatype answerReply = GameOver lobby | AnswerProcessed lobby

text \<open>
  The first \<open>io.to(lobbyId).emit\<close> of the handler comes with the updates of
  \<open>applyAnswer\<close>, before \<open>user.save()\<close> and \<open>lobby.save()\<close>: with \<open>io\<close> undefined the
  handler throws there, nothing is written and the reply is 500.
\<close>

definition submitAnswer ::
  "socketServer option \<Rightarrow> string \<Rightarrow> string \<Rightarrow> string \<Rightarrow> nat \<Rightarrow> server
     \<Rightarrow> ((error + answerReply) \<times> server) option" where
  "submitAnswer io lid userId userAnswer r st =
     (case findLobby lid (lobbies st) of
        None \<Rightarrow> Some (Inl GameNotActive, st)
      | Some lobby0 \<Rightarrow>
          if \<not> gameStarted lobby0 then Some (Inl GameNotActive, st)
          else
            (case find (\<lambda>p. pid p = userId) (players lobby0) of
               None \<Rightarrow> Some (Inl NotYourTurn, st)
             | Some currentPlayerInTurn \<Rightarrow>
                 if length (players lobby0) \<le> currentPlayerIndex lobby0
                   then Some (Inl ServerError, st)
                 else if pid currentPlayerInTurn
                           \<noteq> pid (players lobby0 ! currentPlayerIndex lobby0)
                   then Some (Inl NotYourTurn, st)
                 else if length (questions lobby0) \<le> currentQuestionIndex lobby0
                   then Some (Inl ServerError, st)
                 else if io = None then Some (Inl ServerError, st)
                 else
                   let currentQuestion = questions lobby0 ! currentQuestionIndex lobby0;
                       correct = isCorrect userAnswer currentQuestion;
                       cur = applyAnswer correct currentPlayerInTurn;
                       users1 = recordStats userId (isRanked lobby0) correct (users st);
                       lobby2 = resolveTurn userId cur lobby0
                   in if length (humans (players lobby2)) \<le> 1 then
                        let lobby3 = lobby2\<lparr>gameStarted := False\<rparr>
                        in Some (Inr (GameOver lobby3),
                                 \<lparr>users = awardWinner lobby3 users1,
                                  lobbies = saveLobby lobby3 (lobbies st)\<rparr>)
                      else
                        (case advanceTurn cur r lobby2 of
                           None \<Rightarrow> None
                         | Some lobby4 \<Rightarrow>
                             Some (Inr (AnswerProcessed lobby4),
                                   \<lparr>users = users1,
                                    lobbies = saveLobby lobby4 (lobbies st)\<rparr>))))"

section \<open>The inactivity timer's callback (server.js)\<close>

definition MAX_WARNINGS :: int where
  "MAX_WARNINGS = 3"

definition PENALTY_DURATION_MS :: int where
  "PENALTY_DURATION_MS = 60 * 1000"

datatype event =
    PenaltyApplied int
  | LobbyDeleted string
  | LobbyUpdated lobby
  | KickedFromGame
  | InactivityWarning int int

text \<open>
  \<open>resetInactivityTimer\<close> arms the callback only for a socket flagged \<open>isInGame\<close>; this is
  what runs when the timer fires at time \<open>now\<close>. In \<open>server.js\<close> the binding \<open>io\<close> is the
  server object itself, so the events are sent. \<open>Lobby.findOne\<close> returns the first stored
  lobby that is started and lists the user.
\<close>

definition forceOutOfGame :: "string \<Rightarrow> lobby list \<Rightarrow> event list \<times> lobby list" where
  "forceOutOfGame userId ls =
     (case find (\<lambda>l. list_ex (\<lambda>p. pid p = userId) (players l) \<and> gameStarted l) ls of
        None \<Rightarrow> ([], ls)
      | Some currentLobby \<Rightarrow>
          let l1 = currentLobby\<lparr>players := filter (\<lambda>p. pid p \<noteq> userId) (players currentLobby)\<rparr>
          in if length (humans (players l1)) = 0
             then ([LobbyDeleted (lobbyId l1), KickedFromGame], deleteOne (lobbyId l1) ls)
             else ([LobbyUpdated l1, KickedFromGame], saveLobby l1 ls))"

text \<open>
  The whole callback runs in one \<open>try\<close>; \<open>user.save()\<close> is its last statement. With
  \<open>Lobby\<close> undefined the penalty branch throws at \<open>Lobby.findOne\<close>, after the
  \<open>penaltyApplied\<close> event and before the save: the \<open>catch\<close> logs the error and nothing of
  the firing is stored.
\<close>

definition inactivityTimeout ::
  "lobbyModel option \<Rightarrow> string \<Rightarrow> int \<Rightarrow> server \<Rightarrow> event list \<times> server" where
  "inactivityTimeout Lobby userId now st =
     (case users st userId of
        None \<Rightarrow> ([], st)
      | Some u \<Rightarrow>
          let u1 = u\<lparr>warningCount := jsAdd (warningCount u) 1\<rparr>
          in if MAX_WARNINGS \<le> warningCount u1 then
               let u2 = u1\<lparr>penaltyEndTime := Some (jsAdd now PENALTY_DURATION_MS),
                          warningCount := 0\<rparr>
               in (case Lobby of
                     None \<Rightarrow> ([PenaltyApplied PENALTY_DURATION_MS], st)
                   | Some m \<Rightarrow>
                       let (evs, ls) = forceOutOfGame userId (lobbies st)
                       in (PenaltyApplied PENALTY_DURATION_MS # evs,
                           \<lparr>users = (users st)(userId \<mapsto> u2), lobbies = ls\<rparr>))
             else ([InactivityWarning (warningCount u1) MAX_WARNINGS],
                   st\<lparr>users := (users st)(userId \<mapsto> u1)\<rparr>))"

section \<open>Concrete scenarios\<close>

definition ann :: user where
  "ann = \<lparr>username = ''ann'', elo = 5, casualPoints = 3, rankedCorrectAnswers = 0,
           rankedTotalAnswers = 0, casualCorrectAnswers = 0, casualTotalAnswers = 0,
           soloStage = 0, soloStageAccuracy = [], tokens = 500, inventory = [''hat''],
           equippedTitle = ''New Rival'', warningCount = 0, penaltyEndTime = None\<rparr>"

definition bob :: user where
  "bob = \<lparr>username = ''bob'', elo = 40, casualPoints = 0, rankedCorrectAnswers = 2,
           rankedTotalAnswers = 3, casualCorrectAnswers = 0, casualTotalAnswers = 0,
           soloStage = 0, soloStageAccuracy = [], tokens = 20, inventory = [],
           equippedTitle = ''New Rival'', warningCount = 2, penaltyEndTime = None\<rparr>"

definition seat :: "string \<Rightarrow> string \<Rightarrow> playerType \<Rightarrow> int \<Rightarrow> int \<Rightarrow> playerInLobby" where
  "seat i n t l s =
     \<lparr>pid = i, pname = n, isReady = True, ptype = t, pelo = 0, pcasualPoints = 0, lives = l,
      currentRoundScore = 0, roundCorrectAnswers = 0, roundTotalAnswers = 0, cards = [],
      shields = s, goldenDefenseUsed = False\<rparr>"

definition table :: "string \<Rightarrow> bool \<Rightarrow> playerInLobby list \<Rightarrow> lobby" where
  "table lid started ps =
     \<lparr>lobbyId = lid, lname = ''Room'', ltype = ''ranked-free-for-all-qna'', hostId = ''u1'',
      players = ps, maxPlayers = 3, gameStarted = started, chatMessages = [], isRanked = True,
      isCustom = False, isFrenzyMode = False, initialLives = 3, questionTimer = 30,
      playerCycles = 0, currentQuestionIndex = 0, currentPlayerIndex = 0,
      questions = originalQuestions\<rparr>"

definition people :: "string \<rightharpoonup> user" where
  "people = [''u1'' \<mapsto> ann, ''u2'' \<mapsto> bob]"

text \<open>Two humans and a bot in a running ranked game; ann is in turn and holds one shield.\<close>

definition shieldedGame :: server where
  "shieldedGame =
     \<lparr>users = people,
      lobbies = [table ''L1'' True
                   [seat ''u1'' ''ann'' Human 3 1, seat ''u2'' ''bob'' Human 3 0,
                    seat ''b1'' ''Bot_1'' Bot 3 0]]\<rparr>"

text \<open>Ann is on her last life, bob is the only other human.\<close>

definition lastLifeGame :: server where
  "lastLifeGame =
     \<lparr>users = people,
      lobbies = [table ''L1'' True
                   [seat ''u1'' ''ann'' Human 1 0, seat ''u2'' ''bob'' Human 3 0]]\<rparr>"

text \<open>A lobby that has not started; frenzy mode on, everyone ready.\<close>

definition waitingRoom :: server where
  "waitingRoom =
     \<lparr>users = people,
      lobbies = [(table ''L1'' False
                    [seat ''u1'' ''ann'' Human 1 2, seat ''u2'' ''bob'' Human 0 0])
                 \<lparr>isFrenzyMode := True, ltype := ''custom-qna'', isRanked := False,
                  isCustom := True, initialLives := 5\<rparr>]\<rparr>"

definition quizConfig :: "int \<Rightarrow> string \<Rightarrow> lobbyConfig" where
  "quizConfig n t =
     \<lparr>cfgName = ''Room'', cfgMaxPlayers = n, cfgType = t, cfgFrenzy = False,
      cfgInitialLives = 3, cfgQuestionTimer = 30\<rparr>"

definition nobodyPlaying :: server where
  "nobodyPlaying = \<lparr>users = people, lobbies = []\<rparr>"

text \<open>
  What the specification calls the trimmed answer (\<open>String.prototype.trim\<close>); the answer
  handler never calls it.
\<close>

definition isSpaceSpec :: "char \<Rightarrow> bool" where
  "isSpaceSpec c = (c \<in> set [CHR '' '', CHR 0x09, CHR 0x0A, CHR 0x0B, CHR 0x0C, CHR 0x0D])"

definition trimSpec :: "string \<Rightarrow> string" where
  "trimSpec s = rev (dropWhile isSpaceSpec (rev (dropWhile isSpaceSpec s)))"

definition rawCorrectSpec :: "string \<Rightarrow> question \<Rightarrow> bool" where
  "rawCorrectSpec userAnswer currentQuestion =
     (toLowerCase (trimSpec userAnswer) = toLowerCase (qanswer currentQuestion))"

text \<open>Observations used to state closed facts about a run.\<close>

definition storedRosters :: "server \<Rightarrow> string list list" where
  "storedRosters st = map (\<lambda>l. map pid (players l)) (lobbies st)"

definition answerOutcome ::
  "((error + answerReply) \<times> server) option \<Rightarrow> (bool \<times> (string \<times> int \<times> int) list) option" where
  "answerOutcome res =
     (case res of
        Some (Inr (GameOver l), st') \<Rightarrow>
          Some (False, map (\<lambda>p. (pid p, lives p, shields p)) (players l))
      | Some (Inr (AnswerProcessed l), st') \<Rightarrow>
          Some (True, map (\<lambda>p. (pid p, lives p, shields p)) (players l))
      | _ \<Rightarrow> None)"

definition repliedUser :: "string \<Rightarrow> ((error + answerReply) \<times> server) option \<Rightarrow> user option" where
  "repliedUser uid res = (case res of None \<Rightarrow> None | Some (rep, st') \<Rightarrow> users st' uid)"

text \<open>Ann after buying a gift at a negative price, which the handler accepts.\<close>

definition giftedStore :: server where
  "giftedStore =
     snd (buyItem ''u1'' ''gift'' (- 9999999999999500) ''skin'' ''Gift'' nobodyPlaying)"

definition freshLobby :: server where
  "freshLobby =
     snd (createLobby routesIo ''u1'' ''ann'' (quizConfig 2 ''custom-qna'') 0 ''abc123'' id
            nobodyPlaying)"

text \<open>
  Two humans and a bot with three lives each and no shields; ann is in turn and the
  question is the one whose answer is \<open>const\<close>.
\<close>

definition plainLobby :: lobby where
  "plainLobby =
     (table ''L1'' True
        [seat ''u1'' ''ann'' Human 3 0, seat ''u2'' ''bob'' Human 3 0,
         seat ''b1'' ''Bot_1'' Bot 3 0])
     \<lparr>currentQuestionIndex := 1\<rparr>"

definition plainGame :: server where
  "plainGame = \<lparr>users = people, lobbies = [plainLobby]\<rparr>"

section \<open>Properties\<close>

subsection \<open>Helper facts\<close>

lemma findLobby_saveLobby:
  "findLobby lid ls = Some l0 \<Longrightarrow> lobbyId l = lid \<Longrightarrow> findLobby lid (saveLobby l ls) = Some l"
  unfolding findLobby_def saveLobby_def
  by (induction ls) (auto split: if_splits)

lemma findLobby_lobbyId: "findLobby lid ls = Some l \<Longrightarrow> lobbyId l = lid"
  unfolding findLobby_def by (induction ls) (auto split: if_splits)

lemma toDouble_exact: "\<bar>x\<bar> \<le> 9007199254740992 \<Longrightarrow> toDouble x = x"
  by (simp add: toDouble_def)

lemma toDouble_nonneg:
  assumes "0 \<le> x"
  shows "0 \<le> toDouble x"
proof (cases "\<bar>x\<bar> \<le> 9007199254740992")
  case True
  with assms show ?thesis by (simp add: toDouble_def)
next
  case False
  define sh where "sh = bitLength \<bar>x\<bar> - 53"
  define q where "q = \<bar>x\<bar> div 2 ^ sh"
  have q: "0 \<le> q" unfolding q_def by (simp add: pos_imp_zdiv_nonneg_iff)
  have p: "(0::int) \<le> 2 ^ sh" by simp
  from False assms have sg: "sgn x = 1" by simp
  have "0 \<le> q * 2 ^ sh" "0 \<le> (q + 1) * 2 ^ sh"
    using q p by (simp_all add: mult_nonneg_nonneg)
  then show ?thesis
    using False sg by (simp add: toDouble_def Let_def sh_def [symmetric] q_def [symmetric])
qed

lemma map_snd_zip_upt: "map (\<lambda>x. f (snd x)) (zip [0..<length xs] xs) = map f xs"
  by (rule nth_equalityI) simp_all

lemma snd_emitAndReply [simp]: "snd (emitAndReply io reply st) = st"
  by (simp add: emitAndReply_def split: option.splits)

lemma fst_emitAndReply:
  "fst (emitAndReply io reply st) = (case io of None \<Rightarrow> Inl ServerError | Some s \<Rightarrow> Inr reply)"
  by (simp add: emitAndReply_def split: option.splits)

subsection \<open>Buying an item\<close>

lemma toDouble_below_ten_quadrillion: "toDouble 9999999999999999 = 10000000000000000"
  by code_simp

lemma toDouble_ten_quadrillion: "toDouble 10000000000000000 = 10000000000000000"
  by code_simp

lemma toDouble_gift_price: "toDouble (- 9999999999999500) = - 9999999999999500"
  by code_simp

lemma giftedStore_ann:
  "users giftedStore ''u1''
     = Some (ann\<lparr>tokens := 10000000000000000, inventory := [''hat'', ''gift'']\<rparr>)"
  by (simp add: giftedStore_def buyItem_def nobodyPlaying_def people_def ann_def jsSub_def
      toDouble_ten_quadrillion Let_def)

text \<open>
  C10, as stated, fails: the balance is a double. Ann, with 500 tokens, buys a gift at the
  price \<open>-9999999999999500\<close> (accepted, since 500 is not below it) and holds
  \<open>10000000000000000\<close> tokens; her next purchase, at price 1, succeeds and appends the
  item, and the balance is still \<open>10000000000000000\<close>: it did not go down by the price.
\<close>

theorem buyItem_large_balance:
  "map_option tokens (users nobodyPlaying ''u1'') = Some 500
   \<and> wholeDouble 500 \<and> wholeDouble (- 9999999999999500) \<and> wholeDouble 1
   \<and> map_option tokens (users giftedStore ''u1'') = Some 10000000000000000
   \<and> map_option tokens
        (users (snd (buyItem ''u1'' ''cape'' 1 ''skin'' ''Cape'' giftedStore)) ''u1'')
       = Some 10000000000000000
   \<and> map_option inventory
        (users (snd (buyItem ''u1'' ''cape'' 1 ''skin'' ''Cape'' giftedStore)) ''u1'')
       = Some [''hat'', ''gift'', ''cape'']"
  by (simp add: giftedStore_ann buyItem_def jsSub_def toDouble_below_ten_quadrillion Let_def
      wholeDouble_def toDouble_gift_price toDouble_exact nobodyPlaying_def people_def ann_def)

text \<open>
  C10, amended. For a balance and a price that are whole doubles, buying an item keeps the
  token balance non-negative and the inventory free of duplicates: when the item is
  already owned or the tokens do not reach the price, the request fails and the store is
  unchanged; otherwise the item id is appended once and the balance becomes the double
  nearest to tokens minus price, which is exactly tokens minus price whenever that
  difference is at most \<open>2 ^ 53\<close> in magnitude.
\<close>

theorem buyItem_preserves_invariants:
  assumes "users st uid = Some u" and "0 \<le> tokens u" and "distinct (inventory u)"
    and "wholeDouble (tokens u)" and "wholeDouble price"
  shows "(item \<in> set (inventory u) \<or> tokens u < price \<longrightarrow>
            (\<exists>e. buyItem uid item price cat nm st = (Inl e, st)))
       \<and> (item \<notin> set (inventory u) \<and> price \<le> tokens u \<longrightarrow>
            (\<exists>r u'. buyItem uid item price cat nm st
                      = (Inr r, st\<lparr>users := (users st)(uid \<mapsto> u')\<rparr>)
               \<and> tokens u' = toDouble (tokens u - price)
               \<and> (\<bar>tokens u - price\<bar> \<le> 9007199254740992 \<longrightarrow> tokens u' = tokens u - price)
               \<and> inventory u' = inventory u @ [item]
               \<and> 0 \<le> tokens u' \<and> distinct (inventory u')
               \<and> newTokens r = tokens u' \<and> newInventory r = inventory u'))"
  using assms by (auto simp: buyItem_def jsSub_def Let_def toDouble_exact toDouble_nonneg)

theorem buyItem_preserves_invariants_witness:
  "users nobodyPlaying ''u1'' = Some ann \<and> 0 \<le> tokens ann \<and> distinct (inventory ann)
   \<and> wholeDouble (tokens ann) \<and> wholeDouble 10 \<and> wholeDouble 501 \<and> wholeDouble 200
   \<and> (\<exists>e. buyItem ''u1'' ''hat'' 10 ''skin'' ''Hat'' nobodyPlaying = (Inl e, nobodyPlaying))
   \<and> (\<exists>e. buyItem ''u1'' ''cape'' 501 ''skin'' ''Cape'' nobodyPlaying = (Inl e, nobodyPlaying))
   \<and> (\<exists>r u'. buyItem ''u1'' ''cape'' 200 ''skin'' ''Cape'' nobodyPlaying
                = (Inr r, nobodyPlaying\<lparr>users := (users nobodyPlaying)(''u1'' \<mapsto> u')\<rparr>)
         \<and> tokens u' = 300 \<and> inventory u' = [''hat'', ''cape''])"
proof -
  have h: "users nobodyPlaying ''u1'' = Some ann" "0 \<le> tokens ann" "distinct (inventory ann)"
      "wholeDouble (tokens ann)"
    by (simp_all add: nobodyPlaying_def people_def ann_def wholeDouble_def toDouble_exact)
  have w: "wholeDouble 10" "wholeDouble 501" "wholeDouble 200"
    by (simp_all add: wholeDouble_def toDouble_exact)
  show ?thesis
    using h w buyItem_preserves_invariants [OF h w(1), of "''hat''" "''skin''" "''Hat''"]
      buyItem_preserves_invariants [OF h w(2), of "''cape''" "''skin''" "''Cape''"]
      buyItem_preserves_invariants [OF h w(3), of "''cape''" "''skin''" "''Cape''"]
    by (auto simp: ann_def)
qed

subsection \<open>Leaving a lobby\<close>

text \<open>
  C9. When the lobby exists and the user is not one of its players, leaving fails with
  ``User not found in lobby'' and nothing is written: the store, and with it the lobby, its
  host and its player list, is what it was.
\<close>

theorem leaveLobby_non_member:
  assumes "findLobby lid (lobbies st) = Some l" and "\<forall>p \<in> set (players l). pid p \<noteq> uid"
  shows "leaveLobby io lid uid st = (Inl UserNotInLobby, st)
       \<and> findLobby lid (lobbies (snd (leaveLobby io lid uid st))) = Some l"
  using assms by (simp add: leaveLobby_def Let_def)

theorem leaveLobby_non_member_witness:
  "findLobby ''L1'' (lobbies lastLifeGame) \<noteq> None
   \<and> leaveLobby routesIo ''L1'' ''u9'' lastLifeGame = (Inl UserNotInLobby, lastLifeGame)"
proof -
  obtain l where l: "findLobby ''L1'' (lobbies lastLifeGame) = Some l"
    and m: "\<forall>p \<in> set (players l). pid p \<noteq> ''u9''"
    by (simp add: findLobby_def lastLifeGame_def table_def seat_def)
  show ?thesis using l leaveLobby_non_member [OF l m, of routesIo] by simp
qed

subsection \<open>Starting a game\<close>

text \<open>
  C6. When a start passes the handler's checks (the lobby exists, the requester is its
  host, it has at least two players and all are ready), the lobby the handler stores is
  started with cycle counter, question index and player index 0, and every player has the
  lobby's initial lives, round score and round counters 0, no shields, the Golden Defense
  flag cleared, and a hand of exactly 3 cards in frenzy mode and of none otherwise. The
  handler emits after the save: the reply carries that lobby when \<open>io\<close> is bound and is
  500 when it is not.
\<close>

theorem startGame_resets_players:
  assumes l0: "findLobby lid (lobbies st) = Some l0" and host: "hostId l0 = uid"
    and two: "2 \<le> length (players l0)" and ready: "list_all isReady (players l0)"
  shows "\<exists>l'. findLobby lid (lobbies (snd (startGame io lid uid shuffle rng st))) = Some l'
          \<and> fst (startGame io lid uid shuffle rng st)
              = (case io of None \<Rightarrow> Inl ServerError | Some s \<Rightarrow> Inr l')
          \<and> gameStarted l' \<and> playerCycles l' = 0 \<and> currentQuestionIndex l' = 0
          \<and> currentPlayerIndex l' = 0
          \<and> initialLives l' = initialLives l0 \<and> isFrenzyMode l' = isFrenzyMode l0
          \<and> map pid (players l') = map pid (players l0)
          \<and> (\<forall>p \<in> set (players l').
                lives p = initialLives l' \<and> currentRoundScore p = 0 \<and> roundCorrectAnswers p = 0
              \<and> roundTotalAnswers p = 0 \<and> shields p = 0 \<and> \<not> goldenDefenseUsed p
              \<and> length (cards p) = (if isFrenzyMode l' then 3 else 0))"
proof -
  have id0: "lobbyId l0 = lid" using l0 by (rule findLobby_lobbyId)
  define qs where "qs = (if includesStr (ltype l0) ''qna'' then shuffle originalQuestions
      else if includesStr (ltype l0) ''fill-in-blanks'' then shuffle fillInBlanksQuestions
      else shuffle originalQuestions)"
  define l2 where "l2 = l0\<lparr>gameStarted := True, currentQuestionIndex := 0,
      currentPlayerIndex := 0, playerCycles := 0, questions := qs\<rparr>"
  define l3 where "l3 = l2\<lparr>players := map (\<lambda>(j, p). resetPlayer l2 rng j p)
      (zip [0..<length (players l2)] (players l2))\<rparr>"
  have res: "startGame io lid uid shuffle rng st
      = emitAndReply io l3 (st\<lparr>lobbies := saveLobby l3 (lobbies st)\<rparr>)"
    using l0 host two ready
    by (auto simp: startGame_def Let_def l3_def l2_def qs_def)
  have flags: "gameStarted l3" "playerCycles l3 = 0" "currentQuestionIndex l3 = 0"
    "currentPlayerIndex l3 = 0" "initialLives l3 = initialLives l0"
    "isFrenzyMode l3 = isFrenzyMode l0" "lobbyId l3 = lid"
    by (simp_all add: l3_def l2_def id0)
  have "map pid (players l3) = map pid (players l2)"
    by (simp add: l3_def resetPlayer_def split_def comp_def map_snd_zip_upt)
  then have pids: "map pid (players l3) = map pid (players l0)" by (simp add: l2_def)
  have pl: "\<forall>p \<in> set (players l3).
             lives p = initialLives l3 \<and> currentRoundScore p = 0 \<and> roundCorrectAnswers p = 0
           \<and> roundTotalAnswers p = 0 \<and> shields p = 0 \<and> \<not> goldenDefenseUsed p
           \<and> length (cards p) = (if isFrenzyMode l3 then 3 else 0)"
    by (auto simp: l3_def l2_def resetPlayer_def getStartingCards_def)
  have stored: "findLobby lid (lobbies (snd (startGame io lid uid shuffle rng st))) = Some l3"
    using l0 flags(7) by (simp add: res findLobby_saveLobby)
  have reply: "fst (startGame io lid uid shuffle rng st)
      = (case io of None \<Rightarrow> Inl ServerError | Some s \<Rightarrow> Inr l3)"
    by (simp add: res fst_emitAndReply)
  from stored reply flags pids pl show ?thesis by (intro exI [of _ l3]) simp
qed

theorem startGame_resets_players_witness:
  "\<exists>l'. findLobby ''L1'' (lobbies (snd (startGame routesIo ''L1'' ''u1'' rev id waitingRoom)))
          = Some l'
     \<and> fst (startGame routesIo ''L1'' ''u1'' rev id waitingRoom) = Inl ServerError
     \<and> isFrenzyMode l' \<and> initialLives l' = 5 \<and> gameStarted l'
     \<and> map lives (players l') = [5, 5] \<and> map shields (players l') = [0, 0]
     \<and> map (length \<circ> cards) (players l') = [3, 3]"
proof -
  let ?l0 = "(table ''L1'' False
                    [seat ''u1'' ''ann'' Human 1 2, seat ''u2'' ''bob'' Human 0 0])
                 \<lparr>isFrenzyMode := True, ltype := ''custom-qna'', isRanked := False,
                  isCustom := True, initialLives := 5\<rparr>"
  have pre: "findLobby ''L1'' (lobbies waitingRoom) = Some ?l0" "hostId ?l0 = ''u1''"
      "2 \<le> length (players ?l0)" "list_all isReady (players ?l0)"
    by (simp_all add: waitingRoom_def findLobby_def table_def seat_def)
  have more: "isFrenzyMode ?l0" "initialLives ?l0 = 5" "map pid (players ?l0) = [''u1'', ''u2'']"
    by (simp_all add: table_def seat_def)
  from startGame_resets_players [OF pre, of routesIo rev id] more
  obtain l' where l': "findLobby ''L1''
        (lobbies (snd (startGame routesIo ''L1'' ''u1'' rev id waitingRoom))) = Some l'"
      "fst (startGame routesIo ''L1'' ''u1'' rev id waitingRoom) = Inl ServerError"
      "gameStarted l'" "initialLives l' = 5" "isFrenzyMode l'"
      "map pid (players l') = [''u1'', ''u2'']"
      "\<forall>p \<in> set (players l'). lives p = initialLives l' \<and> shields p = 0
          \<and> length (cards p) = (if isFrenzyMode l' then 3 else 0)"
    by (auto simp: routesIo_def)
  from l'(6) have "length (map pid (players l')) = 2" by simp
  then have "length (players l') = 2" by simp
  then obtain a b where ab: "players l' = [a, b]"
    by (auto simp: numeral_2_eq_2 length_Suc_conv)
  from l' ab show ?thesis by (intro exI [of _ l']) simp
qed

subsection \<open>Creating a lobby\<close>

text \<open>
  C7, as stated, fails: a capacity below 1 is not rejected. With capacity 0 and a known
  mode a lobby is created: it is in the store afterwards, the host its only player.
\<close>

theorem createLobby_accepts_capacity_zero:
  "cfgMaxPlayers (quizConfig 0 ''custom-qna'') < 1
   \<and> storedRosters (snd (createLobby routesIo ''u1'' ''ann'' (quizConfig 0 ''custom-qna'') 0
        ''abc123'' id nobodyPlaying)) = [[''u1'']]
   \<and> map lobbyId (lobbies (snd (createLobby routesIo ''u1'' ''ann'' (quizConfig 0 ''custom-qna'') 0
        ''abc123'' id nobodyPlaying))) = [''custom_qna-abc123'']
   \<and> map maxPlayers (lobbies (snd (createLobby routesIo ''u1'' ''ann''
        (quizConfig 0 ''custom-qna'') 0 ''abc123'' id nobodyPlaying))) = [0]"
  by (simp add: createLobby_def storedRosters_def quizConfig_def nobodyPlaying_def people_def
      ann_def penalized_def lobbyTypes_def findLobby_def generateLobbyId_def replaceDashes_def
      startsWith_def getStartingCards_def validLobby_def Let_def)

text \<open>
  C7, amended. A configuration with an unknown mode never creates a lobby: the request
  fails and the store is unchanged, and for an existing, unpenalised host the failure is the
  500 ``Server error'' of the rejected save. A capacity below 1 is not validated: with a
  known mode, a fresh id and non-empty names the lobby is stored with the host as its only
  player.
\<close>

theorem createLobby_unknown_mode:
  shows "(cfgType cfg \<notin> set lobbyTypes \<longrightarrow>
            (\<exists>e. createLobby io h n cfg now sfx rng st = (Inl e, st))
          \<and> (\<forall>u. users st h = Some u \<and> \<not> penalized now u \<longrightarrow>
                 createLobby io h n cfg now sfx rng st = (Inl ServerError, st)))
       \<and> (cfgType cfg \<in> set lobbyTypes \<and> cfgMaxPlayers cfg < 1
          \<and> (\<exists>u. users st h = Some u \<and> \<not> penalized now u)
          \<and> h \<noteq> [] \<and> n \<noteq> [] \<and> cfgName cfg \<noteq> []
          \<and> findLobby (generateLobbyId (replaceDashes (cfgType cfg)) sfx) (lobbies st) = None \<longrightarrow>
            (\<exists>l. lobbies (snd (createLobby io h n cfg now sfx rng st)) = lobbies st @ [l]
               \<and> users (snd (createLobby io h n cfg now sfx rng st)) = users st
               \<and> map pid (players l) = [h] \<and> maxPlayers l = cfgMaxPlayers cfg))"
  by (auto simp: createLobby_def validLobby_def generateLobbyId_def Let_def split: option.splits)

theorem createLobby_unknown_mode_witness:
  "''deathmatch'' \<notin> set lobbyTypes
   \<and> createLobby routesIo ''u1'' ''ann'' (quizConfig 4 ''deathmatch'') 0 ''abc123'' id nobodyPlaying
       = (Inl ServerError, nobodyPlaying)
   \<and> (\<exists>l. lobbies (snd (createLobby routesIo ''u1'' ''ann'' (quizConfig 0 ''custom-qna'') 0
                ''abc123'' id nobodyPlaying)) = lobbies nobodyPlaying @ [l]
        \<and> map pid (players l) = [''u1''] \<and> maxPlayers l = 0)"
proof -
  have a: "cfgType (quizConfig 4 ''deathmatch'') \<notin> set lobbyTypes"
    by (simp add: quizConfig_def lobbyTypes_def)
  have u: "users nobodyPlaying ''u1'' = Some ann \<and> \<not> penalized 0 ann"
    by (simp add: nobodyPlaying_def people_def ann_def penalized_def)
  have b: "cfgType (quizConfig 0 ''custom-qna'') \<in> set lobbyTypes
      \<and> cfgMaxPlayers (quizConfig 0 ''custom-qna'') < 1
      \<and> cfgName (quizConfig 0 ''custom-qna'') \<noteq> []
      \<and> findLobby (generateLobbyId (replaceDashes (cfgType (quizConfig 0 ''custom-qna''))) ''abc123'')
          (lobbies nobodyPlaying) = None"
    by (simp add: quizConfig_def lobbyTypes_def nobodyPlaying_def findLobby_def)
  show ?thesis
    using a u b
      createLobby_unknown_mode [of "quizConfig 4 ''deathmatch''" routesIo "''u1''" "''ann''" 0
        "''abc123''" id nobodyPlaying]
      createLobby_unknown_mode [of "quizConfig 0 ''custom-qna''" routesIo "''u1''" "''ann''" 0
        "''abc123''" id nobodyPlaying]
    by (auto simp: quizConfig_def)
qed

subsection \<open>Joining a lobby\<close>

lemma joinLobby_member_open:
  assumes "users st uid = Some u" and "\<not> penalized now u"
    and "findLobby lid (lobbies st) = Some l" and "uid \<in> pid ` set (players l)"
    and "int (length (players l)) < maxPlayers l" and "\<not> gameStarted l"
  shows "joinLobby io lid uid n now rng st = (Inr l, st)"
  using assms by (auto simp: joinLobby_def list_ex_iff)

lemma joinLobby_member_full_or_started:
  assumes "users st uid = Some u" and "\<not> penalized now u"
    and "findLobby lid (lobbies st) = Some l" and "uid \<in> pid ` set (players l)"
    and "maxPlayers l \<le> int (length (players l)) \<or> gameStarted l"
  shows "joinLobby io lid uid n now rng st = (Inl LobbyFullOrStarted, st)"
  using assms by (auto simp: joinLobby_def)

text \<open>
  C2. A member who joins again should get the lobby back unchanged, whether or not the
  lobby is full or the game has started. The handler tests capacity and the started flag
  before it looks for the member: the host of a lobby just created for two players (the
  host and \<open>Bot_1\<close>, so the roster is at capacity) is answered ``Lobby is full or game
  has started'', and so is a player of a running game.
\<close>

theorem joinLobby_member_rejected:
  "map pid (players (hd (lobbies freshLobby))) = [''u1'', ''bot_custom_qna-abc123_1'']
   \<and> joinLobby routesIo ''custom_qna-abc123'' ''u1'' ''ann'' 0 id freshLobby
       = (Inl LobbyFullOrStarted, freshLobby)
   \<and> joinLobby routesIo ''L1'' ''u1'' ''ann'' 0 id shieldedGame
       = (Inl LobbyFullOrStarted, shieldedGame)"
proof -
  have f: "map pid (players (hd (lobbies freshLobby))) = [''u1'', ''bot_custom_qna-abc123_1'']
    \<and> map lobbyId (lobbies freshLobby) = [''custom_qna-abc123'']
    \<and> map maxPlayers (lobbies freshLobby) = [2]
    \<and> users freshLobby = people"
    by (simp add: freshLobby_def createLobby_def quizConfig_def nobodyPlaying_def people_def
      ann_def penalized_def lobbyTypes_def findLobby_def generateLobbyId_def replaceDashes_def
      startsWith_def getStartingCards_def validLobby_def Let_def upt_rec)
  have u: "people ''u1'' = Some ann" "\<not> penalized 0 ann"
    by (simp_all add: people_def ann_def penalized_def)
  obtain l where l: "lobbies freshLobby = [l]" using f by (cases "lobbies freshLobby") auto
  from f l have "length (map pid (players l)) = 2" by simp
  then have len: "length (players l) = 2" by simp
  have "joinLobby routesIo ''custom_qna-abc123'' ''u1'' ''ann'' 0 id freshLobby
       = (Inl LobbyFullOrStarted, freshLobby)"
    using f u l len by (simp add: joinLobby_def findLobby_def)
  moreover have "joinLobby routesIo ''L1'' ''u1'' ''ann'' 0 id shieldedGame
      = (Inl LobbyFullOrStarted, shieldedGame)"
    using u by (simp add: joinLobby_def shieldedGame_def findLobby_def table_def)
  ultimately show ?thesis using f by simp
qed

subsection \<open>The inactivity timer\<close>

lemma inactivityTimeout_lobby_undefined:
  assumes "users st uid = Some u" and "3 \<le> jsAdd (warningCount u) 1"
  shows "inactivityTimeout None uid now st = ([PenaltyApplied 60000], st)"
  using assms
  by (simp add: inactivityTimeout_def MAX_WARNINGS_def PENALTY_DURATION_MS_def Let_def)

lemma inactivityTimeout_warning:
  assumes "users st uid = Some u" and "jsAdd (warningCount u) 1 < 3"
  shows "inactivityTimeout Lobby uid now st
           = ([InactivityWarning (jsAdd (warningCount u) 1) 3],
              st\<lparr>users := (users st)(uid \<mapsto> u\<lparr>warningCount := jsAdd (warningCount u) 1\<rparr>)\<rparr>)"
  using assms by (simp add: inactivityTimeout_def MAX_WARNINGS_def Let_def)

text \<open>
  With \<open>Lobby\<close> bound, the same firing for bob (two warnings, playing in \<open>L1\<close>) stores what
  the callback computes: counter 0, penalty expiry 60 seconds after the firing, and the
  lobby without him.
\<close>

lemma inactivityTimeout_with_lobby_model:
  "map_option warningCount
     (users (snd (inactivityTimeout (Some LobbyModel) ''u2'' 1000 lastLifeGame)) ''u2'') = Some 0
   \<and> map_option penaltyEndTime
       (users (snd (inactivityTimeout (Some LobbyModel) ''u2'' 1000 lastLifeGame)) ''u2'')
     = Some (Some 61000)
   \<and> storedRosters (snd (inactivityTimeout (Some LobbyModel) ''u2'' 1000 lastLifeGame))
     = [[''u1'']]"
  by (simp add: inactivityTimeout_def forceOutOfGame_def storedRosters_def lastLifeGame_def
      people_def bob_def table_def seat_def humans_def saveLobby_def jsAdd_def toDouble_def
      MAX_WARNINGS_def PENALTY_DURATION_MS_def Let_def)

text \<open>
  C8. On the firing at which the counter reaches 3 the counter should be reset to 0, the
  penalty expiry set 60 seconds later and the user taken out of the running lobby. In the
  program as it is loaded \<open>Lobby\<close> is undefined in \<open>server.js\<close>: the firing for bob, who has
  two warnings and plays in \<open>L1\<close>, sends \<open>penaltyApplied\<close> and stores nothing (his counter
  stays 2, no penalty expiry, he stays in the roster); and three firings in a row for ann,
  from a counter of 0, leave the stored counter at 1, 2 and 2, with no penalty expiry.
\<close>

theorem inactivityTimeout_penalty_not_stored:
  "map_option warningCount (users lastLifeGame ''u2'') = Some 2
   \<and> inactivityTimeout serverLobby ''u2'' 1000 lastLifeGame
       = ([PenaltyApplied 60000], lastLifeGame)
   \<and> storedRosters lastLifeGame = [[''u1'', ''u2'']]
   \<and> map_option warningCount (users lastLifeGame ''u1'') = Some 0
   \<and> map_option warningCount
        (users (snd (inactivityTimeout serverLobby ''u1'' 1000 lastLifeGame)) ''u1'') = Some 1
   \<and> map_option warningCount
        (users (snd (inactivityTimeout serverLobby ''u1'' 2000
           (snd (inactivityTimeout serverLobby ''u1'' 1000 lastLifeGame)))) ''u1'') = Some 2
   \<and> map_option warningCount
        (users (snd (inactivityTimeout serverLobby ''u1'' 3000
           (snd (inactivityTimeout serverLobby ''u1'' 2000
              (snd (inactivityTimeout serverLobby ''u1'' 1000 lastLifeGame)))))) ''u1'') = Some 2
   \<and> map_option penaltyEndTime
        (users (snd (inactivityTimeout serverLobby ''u1'' 3000
           (snd (inactivityTimeout serverLobby ''u1'' 2000
              (snd (inactivityTimeout serverLobby ''u1'' 1000 lastLifeGame)))))) ''u1'')
       = Some None
   \<and> fst (inactivityTimeout serverLobby ''u1'' 3000
           (snd (inactivityTimeout serverLobby ''u1'' 2000
              (snd (inactivityTimeout serverLobby ''u1'' 1000 lastLifeGame)))))
       = [PenaltyApplied 60000]"
  by (simp add: inactivityTimeout_def serverLobby_def storedRosters_def lastLifeGame_def
      people_def ann_def bob_def table_def seat_def jsAdd_def toDouble_def
      MAX_WARNINGS_def PENALTY_DURATION_MS_def Let_def)

subsection \<open>How an answer is judged\<close>

lemma toLowerChar_idem: "toLowerChar (toLowerChar c) = toLowerChar c"
  by (simp add: toLowerChar_def)

lemma toLowerChar_toUpperChar: "toLowerChar (toUpperChar c) = toLowerChar c"
  by (simp add: toLowerChar_def toUpperChar_def)

lemma toLowerCase_same_letters:
  "list_all2 (\<lambda>c d. c = d \<or> c = toUpperChar d \<or> c = toLowerChar d) xs ys
   \<Longrightarrow> toLowerCase xs = toLowerCase ys"
  unfolding toLowerCase_def
  by (induction xs ys rule: list_all2_induct)
     (auto simp: toLowerChar_idem toLowerChar_toUpperChar)

lemma isCorrect_length: "isCorrect ans q \<Longrightarrow> length ans = length (qanswer q)"
proof -
  assume "isCorrect ans q"
  then have "length (toLowerCase ans) = length (toLowerCase (qanswer q))"
    by (simp add: isCorrect_def)
  then show ?thesis by (simp add: toLowerCase_def)
qed

text \<open>
  C1, as stated, fails: the handler does not trim. The answer \<open>'' Const ''\<close> equals the
  canonical answer \<open>const\<close> once trimmed and lower-cased, and the comparison of the handler
  judges it incorrect.
\<close>

theorem isCorrect_untrimmed_answer:
  "qanswer (questions plainLobby ! currentQuestionIndex plainLobby) = ''const''
   \<and> rawCorrectSpec '' Const '' (questions plainLobby ! currentQuestionIndex plainLobby)
   \<and> \<not> isCorrect '' Const '' (questions plainLobby ! currentQuestionIndex plainLobby)"
  by (simp add: rawCorrectSpec_def trimSpec_def isSpaceSpec_def isCorrect_def toLowerCase_def
      toLowerChar_def plainLobby_def table_def originalQuestions_def)

text \<open>
  C1, amended. The correctness the answer handler computes is the case-insensitive
  equality of the answer exactly as submitted with the canonical answer of the question:
  the two have the same length and agree letter by letter once lower-cased. An answer that
  differs from the canonical answer only in the case of its letters is judged correct; a
  correct answer with any characters added in front or behind, white space included, is
  judged incorrect.
\<close>

theorem isCorrect_case_insensitive:
  "(isCorrect ans q \<longleftrightarrow>
      length ans = length (qanswer q)
      \<and> (\<forall>i < length ans. toLowerChar (ans ! i) = toLowerChar (qanswer q ! i)))
   \<and> (list_all2 (\<lambda>c d. c = d \<or> c = toUpperChar d \<or> c = toLowerChar d) ans (qanswer q)
        \<longrightarrow> isCorrect ans q)
   \<and> (isCorrect ans q \<and> ws \<noteq> [] \<longrightarrow> \<not> isCorrect (ws @ ans) q \<and> \<not> isCorrect (ans @ ws) q)"
proof (intro conjI impI)
  show "isCorrect ans q \<longleftrightarrow>
      length ans = length (qanswer q)
      \<and> (\<forall>i < length ans. toLowerChar (ans ! i) = toLowerChar (qanswer q ! i))"
    by (auto simp: isCorrect_def toLowerCase_def list_eq_iff_nth_eq)
next
  assume "list_all2 (\<lambda>c d. c = d \<or> c = toUpperChar d \<or> c = toLowerChar d) ans (qanswer q)"
  then show "isCorrect ans q" by (simp add: isCorrect_def toLowerCase_same_letters)
next
  assume a: "isCorrect ans q \<and> ws \<noteq> []"
  then have len: "length ans = length (qanswer q)" by (simp add: isCorrect_length)
  show "\<not> isCorrect (ws @ ans) q"
  proof
    assume "isCorrect (ws @ ans) q"
    then have "length (ws @ ans) = length (qanswer q)" by (rule isCorrect_length)
    with len a show False by simp
  qed
  show "\<not> isCorrect (ans @ ws) q"
  proof
    assume "isCorrect (ans @ ws) q"
    then have "length (ans @ ws) = length (qanswer q)" by (rule isCorrect_length)
    with len a show False by simp
  qed
qed

theorem isCorrect_case_insensitive_witness:
  "qanswer (originalQuestions ! 1) = ''const''
   \<and> list_all2 (\<lambda>c d. c = d \<or> c = toUpperChar d \<or> c = toLowerChar d) ''CoNst''
        (qanswer (originalQuestions ! 1))
   \<and> isCorrect ''CoNst'' (originalQuestions ! 1)
   \<and> \<not> isCorrect '' CoNst'' (originalQuestions ! 1)
   \<and> \<not> isCorrect ''CoNst '' (originalQuestions ! 1)"
proof -
  have q: "qanswer (originalQuestions ! 1) = ''const''"
    by (simp add: originalQuestions_def)
  have same: "list_all2 (\<lambda>c d. c = d \<or> c = toUpperChar d \<or> c = toLowerChar d) ''CoNst''
        (qanswer (originalQuestions ! 1))"
    unfolding q by simp (simp add: toUpperChar_def)
  note ic = isCorrect_case_insensitive [of "''CoNst''" "originalQuestions ! 1" "'' ''"]
  from ic same have c: "isCorrect ''CoNst'' (originalQuestions ! 1)" by blast
  with ic have "\<not> isCorrect ('' '' @ ''CoNst'') (originalQuestions ! 1)
      \<and> \<not> isCorrect (''CoNst'' @ '' '') (originalQuestions ! 1)" by blast
  with q same c show ?thesis by simp
qed

subsection \<open>Answering with \<open>io\<close> undefined\<close>

lemma submitAnswer_io_undefined:
  "\<exists>e. submitAnswer None lid uid ans r st = Some (Inl e, st)"
  by (auto simp: submitAnswer_def split: option.splits)

lemmas answer_defs =
  submitAnswer_def findLobby_def table_def seat_def people_def ann_def bob_def
  originalQuestions_def isCorrect_def toLowerCase_def toLowerChar_def applyAnswer_def
  recordStats_def updateStats_def resolveTurn_def humans_def advanceTurn_def nextQuestion_def
  dealCycleCard_def startsWith_def saveLobby_def awardWinner_def tokensEarned_def
  jsAdd_def jsSub_def toDouble_def Let_def

subsection \<open>Elimination and the player in turn\<close>

text \<open>
  With \<open>io\<close> bound, ann's wrong answer in the plain game is resolved and the game goes
  on: she has 2 lives left and the others keep their 3.
\<close>

lemma submitAnswer_bound_io_plain:
  "answerOutcome (submitAnswer (Some SocketServer) ''L1'' ''u1'' ''5'' 0 plainGame)
     = Some (True, [(''u1'', 2, 0), (''u2'', 3, 0), (''b1'', 3, 0)])"
  by (simp add: answerOutcome_def plainGame_def plainLobby_def answer_defs skipEliminated.simps)


subsection \<open>Shields and the ledger\<close>

text \<open>
  With \<open>io\<close> bound, ann's wrong answer while holding one shield is resolved as the claim
  says: the shield is gone, her lives are unchanged, and her rating of 5 drops to 0.
\<close>

lemma submitAnswer_bound_io_shield:
  "answerOutcome (submitAnswer (Some SocketServer) ''L1'' ''u1'' ''5'' 0 shieldedGame)
     = Some (True, [(''u1'', 3, 0), (''u2'', 3, 0), (''b1'', 3, 0)])
   \<and> map_option elo
        (repliedUser ''u1'' (submitAnswer (Some SocketServer) ''L1'' ''u1'' ''5'' 0 shieldedGame))
     = Some 0"
  by (simp add: answerOutcome_def repliedUser_def shieldedGame_def answer_defs
      skipEliminated.simps)

text \<open>
  C4. A wrong answer of the player in turn who holds a shield should consume one shield,
  leave the lives unchanged and charge the ledger (ranked: rating minus 10, not below 0).
  In the program as it is loaded, ann (rating 5, one shield, three lives, in turn in a
  ranked lobby) answers wrongly; the handler throws at the \<open>io.to(..).emit\<close> of the shield
  branch, before any save, and replies 500 with the store unchanged: the stored roster
  still shows her shield, and her rating is still 5.
\<close>

theorem submitAnswer_shield_not_consumed:
  "map shields (players (hd (lobbies shieldedGame))) = [1, 0, 0]
   \<and> isRanked (hd (lobbies shieldedGame))
   \<and> map_option elo (users shieldedGame ''u1'') = Some 5
   \<and> \<not> isCorrect ''5''
         (questions (hd (lobbies shieldedGame)) ! currentQuestionIndex (hd (lobbies shieldedGame)))
   \<and> submitAnswer routesIo ''L1'' ''u1'' ''5'' 0 shieldedGame
       = Some (Inl ServerError, shieldedGame)"
  by (simp add: routesIo_def shieldedGame_def submitAnswer_def findLobby_def table_def seat_def
      people_def ann_def originalQuestions_def isCorrect_def toLowerCase_def toLowerChar_def)

subsection \<open>The end of the game\<close>

text \<open>
  With \<open>io\<close> bound, ann's wrong answer on her last life ends the game: she is removed, the
  lobby is no longer started, and bob, the human left, goes from 20 to 270 tokens in the
  ranked lobby.
\<close>

lemma submitAnswer_bound_io_last_life:
  "answerOutcome (submitAnswer (Some SocketServer) ''L1'' ''u1'' ''5'' 0 lastLifeGame)
     = Some (False, [(''u2'', 3, 0)])
   \<and> map_option tokens
        (repliedUser ''u2'' (submitAnswer (Some SocketServer) ''L1'' ''u1'' ''5'' 0 lastLifeGame))
     = Some 270"
  by (simp add: answerOutcome_def repliedUser_def lastLifeGame_def answer_defs)

text \<open>
  C5. When at most one human is left after an answer, the game should become finished and
  the human left be credited 100 tokens plus 150 in a ranked lobby. In the program as it
  is loaded, ann, on her last life in a ranked lobby with bob, answers wrongly; the handler
  throws at \<open>io.to(..).emit\<close> before the elimination, the game-end test and the payout, and
  replies 500 with the store unchanged: the lobby is still started with both players, and
  bob still has 20 tokens.
\<close>

theorem submitAnswer_game_not_ended:
  "map gameStarted (lobbies lastLifeGame) = [True]
   \<and> map lives (players (hd (lobbies lastLifeGame))) = [1, 3]
   \<and> map_option tokens (users lastLifeGame ''u2'') = Some 20
   \<and> submitAnswer routesIo ''L1'' ''u1'' ''5'' 0 lastLifeGame
       = Some (Inl ServerError, lastLifeGame)"
  by (simp add: routesIo_def lastLifeGame_def submitAnswer_def findLobby_def table_def seat_def
      people_def bob_def originalQuestions_def)

end
